theory Spec2Isabelle
  imports Main
begin

section \<open>Values, errors and the external libraries\<close>

text \<open>
  The class \<open>Adash\<close> of \<open>Adash2.py\<close> collects rendered tables, text blocks and plots
  and assembles them into one HTML page. Every method is modelled as a function from
  the object's state to a result and the state the call leaves behind, so that a call
  that raises still shows which fields it touched before raising.
\<close>

text \<open>
  The exceptions the methods can end with. \<open>ValueError\<close> carries the message of the
  \<open>raise\<close> statement; the others are raised by the interpreter itself (subscripting
  \<open>None\<close>, an index out of range, a missing attribute). \<open>ExternalError\<close> stands for
  any exception coming out of pandas or plotly.
\<close>

datatype error =
    ValueError string
  | TypeError
  | IndexError
  | AttributeError
  | ExternalError string

text \<open>
  The arguments called \<open>data\<close> are untyped in the source: a pandas DataFrame (an opaque
  \<open>'d\<close>), a \<open>str\<close>, or some other object that is neither and has none of a DataFrame's
  attributes.
\<close>

datatype 'd pyval = DataFrame 'd | Str string | OtherObj

text \<open>
  pandas, plotly.express and the figure objects are outside the repository; they are
  taken as parameters. \<open>read_csv\<close> and \<open>read_html\<close> may raise, as may the four chart
  constructors; \<open>to_html\<close> is \<open>DataFrame.to_html(classes='display', index=False)\<close>,
  \<open>df_columns\<close> is \<open>DataFrame.columns\<close>, \<open>update_layout f t\<close> is
  \<open>f.update_layout(title_text=t)\<close>.

  \<open>fig.to_html(full_html=False, include_plotlyjs='cdn')\<close> is not a function of the
  figure alone: plotly gives the \<open>div\<close> of every call a fresh id (a \<open>uuid4\<close>).
  \<open>fig_to_html f i\<close> is the markup of the call that draws the id \<open>i\<close>, and every
  method that calls \<open>to_html\<close> takes the ids its calls draw, in order, as \<open>ids\<close>.
\<close>

record ('d, 'f) libs =
  read_csv :: "'d pyval \<Rightarrow> error + 'd"
  read_html :: "'d pyval \<Rightarrow> error + 'd list"
  to_html :: "'d \<Rightarrow> string"
  df_columns :: "'d \<Rightarrow> string list"
  px_line :: "'d \<Rightarrow> string \<Rightarrow> string \<Rightarrow> error + 'f"
  px_bar :: "'d \<Rightarrow> string \<Rightarrow> string \<Rightarrow> error + 'f"
  px_scatter :: "'d \<Rightarrow> string \<Rightarrow> string \<Rightarrow> error + 'f"
  px_histogram :: "'d \<Rightarrow> string \<Rightarrow> string \<Rightarrow> error + 'f"
  update_layout :: "'f \<Rightarrow> string \<Rightarrow> 'f"
  fig_to_html :: "'f \<Rightarrow> string \<Rightarrow> string"

section \<open>The state of an Adash object\<close>

text \<open>The dictionaries built by \<open>set_layout\<close> and \<open>adash_plot\<close> have fixed keys.\<close>

record col_config =
  type :: string
  index :: int

record row_config =
  columns :: "col_config list"

record layout =
  rows :: "row_config list"

record plot =
  html :: string
  title :: "string option"
  position :: string

record 'd adash =
  data :: "'d pyval option"
  layout_config :: "layout option"
  plots_html :: "plot list"
  tables_html :: "string list"
  texts_html :: "string list"

definition init :: "'d adash" where
  "init = \<lparr>data = None, layout_config = None, plots_html = [], tables_html = [],
            texts_html = []\<rparr>"

section \<open>input_file and set_layout\<close>

definition unsupported_file_type :: error where
  "unsupported_file_type =
     ValueError ''Unsupported file type. Please use 'df', 'csv', or 'html'.''"

text \<open>\<open>xs[0]\<close> on the list \<open>pd.read_html\<close> returned.\<close>

definition first_table :: "'d list \<Rightarrow> error + 'd" where
  "first_table dfs = (case dfs of [] \<Rightarrow> Inl IndexError | df # _ \<Rightarrow> Inr df)"

definition input_file ::
  "('d, 'f) libs \<Rightarrow> 'd pyval \<Rightarrow> string \<Rightarrow> 'd adash \<Rightarrow> (error + unit) \<times> 'd adash" where
  "input_file L dat file_type s =
     (if file_type = ''df'' then (Inr (), s\<lparr>data := Some dat\<rparr>)
      else if file_type = ''csv'' then
        (case read_csv L dat of
           Inl e \<Rightarrow> (Inl e, s)
         | Inr df \<Rightarrow> (Inr (), s\<lparr>data := Some (DataFrame df)\<rparr>))
      else if file_type = ''html'' then
        (case read_html L dat of
           Inl e \<Rightarrow> (Inl e, s)
         | Inr dfs \<Rightarrow>
             (case first_table dfs of
                Inl e \<Rightarrow> (Inl e, s)
              | Inr df \<Rightarrow> (Inr (), s\<lparr>data := Some (DataFrame df)\<rparr>)))
      else (Inl unsupported_file_type, s))"

text \<open>
  \<open>range(col)\<close> is empty for \<open>col \<le> 0\<close>; \<open>nat\<close> maps a negative count to 0.
\<close>

definition row_of :: "int \<Rightarrow> row_config" where
  "row_of col = \<lparr>columns = map (\<lambda>i. \<lparr>type = ''plot'', index = int i\<rparr>) [0..<nat col]\<rparr>"

definition set_layout :: "int list \<Rightarrow> 'd adash \<Rightarrow> (error + unit) \<times> 'd adash" where
  "set_layout layout_array s =
     (Inr (), s\<lparr>layout_config := Some \<lparr>rows = map row_of layout_array\<rparr>\<rparr>)"

text \<open>The number of slots of a layout: the iterations of the nested loop of \<open>adash_plot\<close>.\<close>

definition total_slots :: "layout \<Rightarrow> nat" where
  "total_slots lay = sum_list (map (\<lambda>r. length (columns r)) (rows lay))"

section \<open>adash_plot\<close>

definition no_data_or_figure :: error where
  "no_data_or_figure =
     ValueError ''No data or figure provided. Please input data or pass a Plotly figure.''"

definition unsupported_plot_type :: error where
  "unsupported_plot_type =
     ValueError ''Unsupported plot type. Please use 'line', 'bar', 'scatter', or 'histogram'.''"

text \<open>\<open>self.data.columns[i]\<close>: an IndexError beyond the last column.\<close>

definition column_at :: "string list \<Rightarrow> nat \<Rightarrow> error + string" where
  "column_at cols i = (if i < length cols then Inr (cols ! i) else Inl IndexError)"

text \<open>
  \<open>px.f(self.data, x=self.data.columns[0], y=self.data.columns[1])\<close>: the attribute
  \<open>columns\<close> exists only on a DataFrame.
\<close>

definition px_call ::
  "('d, 'f) libs \<Rightarrow> ('d \<Rightarrow> string \<Rightarrow> string \<Rightarrow> error + 'f) \<Rightarrow> 'd pyval option \<Rightarrow> error + 'f" where
  "px_call L px dat =
     (case dat of
        Some (DataFrame d) \<Rightarrow>
          (case column_at (df_columns L d) 0 of
             Inl e \<Rightarrow> Inl e
           | Inr x \<Rightarrow>
               (case column_at (df_columns L d) 1 of
                  Inl e \<Rightarrow> Inl e
                | Inr y \<Rightarrow> px d x y))
      | _ \<Rightarrow> Inl AttributeError)"

text \<open>The \<open>if\<close>/\<open>elif\<close> chain on \<open>plot_type\<close>.\<close>

definition make_fig :: "('d, 'f) libs \<Rightarrow> string \<Rightarrow> 'd pyval option \<Rightarrow> error + 'f" where
  "make_fig L plot_type dat =
     (if plot_type = ''line'' then px_call L (px_line L) dat
      else if plot_type = ''bar'' then px_call L (px_bar L) dat
      else if plot_type = ''scatter'' then px_call L (px_scatter L) dat
      else if plot_type = ''histogram'' then px_call L (px_histogram L) dat
      else Inl unsupported_plot_type)"

text \<open>The body of the inner loop: one slot of the layout.\<close>

text \<open>
  The body of the inner loop: one slot of the layout. \<open>n\<close> counts the ids drawn so far
  in this call of \<open>adash_plot\<close>.
\<close>

definition plot_slot ::
  "('d, 'f) libs \<Rightarrow> (nat \<Rightarrow> string) \<Rightarrow> string \<Rightarrow> string option \<Rightarrow> string \<Rightarrow> 'd adash \<Rightarrow> nat
     \<Rightarrow> (error + unit) \<times> 'd adash \<times> nat" where
  "plot_slot L ids plot_type ttl pos s n =
     (case make_fig L plot_type (data s) of
        Inl e \<Rightarrow> (Inl e, s, n)
      | Inr fig \<Rightarrow>
          (let fig' = (case ttl of None \<Rightarrow> fig | Some t \<Rightarrow> update_layout L fig t);
               plot_html = fig_to_html L fig' (ids n)
           in (Inr (), s\<lparr>plots_html := plots_html s @
                 [\<lparr>html = plot_html, title = ttl, position = pos\<rparr>]\<rparr>, Suc n)))"

fun plot_cols ::
  "('d, 'f) libs \<Rightarrow> (nat \<Rightarrow> string) \<Rightarrow> string \<Rightarrow> string option \<Rightarrow> string \<Rightarrow> col_config list
     \<Rightarrow> 'd adash \<Rightarrow> nat \<Rightarrow> (error + unit) \<times> 'd adash \<times> nat" where
  "plot_cols L ids plot_type ttl pos [] s n = (Inr (), s, n)"
| "plot_cols L ids plot_type ttl pos (col_config # cs) s n =
     (case plot_slot L ids plot_type ttl pos s n of
        (Inl e, s', n') \<Rightarrow> (Inl e, s', n')
      | (Inr _, s', n') \<Rightarrow> plot_cols L ids plot_type ttl pos cs s' n')"

fun plot_rows ::
  "('d, 'f) libs \<Rightarrow> (nat \<Rightarrow> string) \<Rightarrow> string \<Rightarrow> string option \<Rightarrow> string \<Rightarrow> row_config list
     \<Rightarrow> 'd adash \<Rightarrow> nat \<Rightarrow> (error + unit) \<times> 'd adash \<times> nat" where
  "plot_rows L ids plot_type ttl pos [] s n = (Inr (), s, n)"
| "plot_rows L ids plot_type ttl pos (row_config # rs) s n =
     (case plot_cols L ids plot_type ttl pos (columns row_config) s n of
        (Inl e, s', n') \<Rightarrow> (Inl e, s', n')
      | (Inr _, s', n') \<Rightarrow> plot_rows L ids plot_type ttl pos rs s' n')"

definition adash_plot ::
  "('d, 'f) libs \<Rightarrow> (nat \<Rightarrow> string) \<Rightarrow> 'f option \<Rightarrow> string \<Rightarrow> string option \<Rightarrow> string
     \<Rightarrow> 'd adash \<Rightarrow> (error + unit) \<times> 'd adash" where
  "adash_plot L ids fig plot_type ttl pos s =
     (if data s = None \<and> fig = None then (Inl no_data_or_figure, s)
      else
        (case fig of
           Some f \<Rightarrow>
             (Inr (), s\<lparr>plots_html := plots_html s @
                [\<lparr>html = fig_to_html L f (ids 0), title = ttl, position = pos\<rparr>]\<rparr>)
         | None \<Rightarrow>
             (case layout_config s of
                None \<Rightarrow> (Inl TypeError, s)
              | Some lay \<Rightarrow>
                  (case plot_rows L ids plot_type ttl pos (rows lay) s 0 of
                     (r, s', n) \<Rightarrow> (r, s')))))"

section \<open>adash_table\<close>

definition unsupported_file_format :: error where
  "unsupported_file_format =
     ValueError ''Unsupported file format. Please use a DataFrame, CSV, or HTML file.''"

definition no_data_available :: error where
  "no_data_available = ValueError ''No data available. Please input data first.''"

text \<open>\<open>s.endswith(suf)\<close>\<close>

definition endswith :: "string \<Rightarrow> string \<Rightarrow> bool" where
  "endswith s suf = (length suf \<le> length s \<and> drop (length s - length suf) s = suf)"

definition append_table :: "string \<Rightarrow> 'd adash \<Rightarrow> (error + unit) \<times> 'd adash" where
  "append_table table_html s = (Inr (), s\<lparr>tables_html := tables_html s @ [table_html]\<rparr>)"

text \<open>
  The branch for an argument that is neither a DataFrame nor a \<open>str\<close> has no \<open>else\<close>:
  the call returns without appending and without raising. With no argument the table
  is \<open>self.data.to_html(...)\<close>, an attribute only a DataFrame has.
\<close>

definition adash_table ::
  "('d, 'f) libs \<Rightarrow> 'd pyval option \<Rightarrow> 'd adash \<Rightarrow> (error + unit) \<times> 'd adash" where
  "adash_table L dat s =
     (case dat of
        Some (DataFrame d) \<Rightarrow> append_table (to_html L d) s
      | Some (Str p) \<Rightarrow>
          (if endswith p ''.csv'' then
             (case read_csv L (Str p) of
                Inl e \<Rightarrow> (Inl e, s)
              | Inr df \<Rightarrow> append_table (to_html L df) s)
           else if endswith p ''.html'' then
             (case read_html L (Str p) of
                Inl e \<Rightarrow> (Inl e, s)
              | Inr dfs \<Rightarrow>
                  (case first_table dfs of
                     Inl e \<Rightarrow> (Inl e, s)
                   | Inr df \<Rightarrow> append_table (to_html L df) s))
           else (Inl unsupported_file_format, s))
      | Some OtherObj \<Rightarrow> (Inr (), s)
      | None \<Rightarrow>
          (case data s of
             Some (DataFrame d) \<Rightarrow> append_table (to_html L d) s
           | Some _ \<Rightarrow> (Inl AttributeError, s)
           | None \<Rightarrow> (Inl no_data_available, s)))"

section \<open>Alignment classes\<close>

definition get_text_position_class :: "string \<Rightarrow> string" where
  "get_text_position_class pos =
     (if pos = ''left'' then ''text-left''
      else if pos = ''right'' then ''text-right''
      else if pos = ''justify'' then ''text-justify''
      else if pos = ''start'' then ''text-start''
      else if pos = ''end'' then ''text-end''
      else ''text-center'')"

definition get_title_position_class :: "string \<Rightarrow> string" where
  "get_title_position_class pos =
     (if pos = ''left'' then ''text-left''
      else if pos = ''right'' then ''text-right''
      else ''text-center'')"

section \<open>adash_text\<close>

text \<open>
  \<open>if heading:\<close> and \<open>if textlines:\<close> test truthiness: \<open>None\<close>, the empty string and
  the empty list all skip the block. The heading and the paragraphs are f-strings; the
  opening tags of the two lists are plain string literals, so the braces and the name
  between them stay in the text as written.
\<close>

definition heading_html :: "string \<Rightarrow> string \<Rightarrow> string" where
  "heading_html position_class heading =
     ''<h2 class='text-2xl font-bold '' @ position_class @ '''>'' @ heading @ ''</h2>''"

definition paragraph_html :: "string \<Rightarrow> string \<Rightarrow> string" where
  "paragraph_html position_class line =
     ''<p class='mt-2 '' @ position_class @ '''>'' @ line @ ''</p>''"

definition item_html :: "string \<Rightarrow> string" where
  "item_html item = ''<li>'' @ item @ ''</li>''"

definition ol_open :: string where
  "ol_open = ''<ol class='mt-2 list-decimal list-inside {position_class}'>''"

definition ul_open :: string where
  "ul_open = ''<ul class='mt-2 list-disc list-inside {position_class}'>''"

definition add_heading :: "string \<Rightarrow> string option \<Rightarrow> string \<Rightarrow> string" where
  "add_heading position_class heading text_html =
     (case heading of
        None \<Rightarrow> text_html
      | Some h \<Rightarrow> if h = [] then text_html else text_html @ heading_html position_class h)"

definition add_textlines :: "string \<Rightarrow> string list option \<Rightarrow> string \<Rightarrow> string" where
  "add_textlines position_class textlines text_html =
     (case textlines of
        None \<Rightarrow> text_html
      | Some ls \<Rightarrow>
          if ls = [] then text_html
          else foldl (\<lambda>acc line. acc @ paragraph_html position_class line) text_html ls)"

definition add_list :: "string \<Rightarrow> string \<Rightarrow> string list option \<Rightarrow> string \<Rightarrow> string" where
  "add_list open_tag close_tag items text_html =
     (case items of
        None \<Rightarrow> text_html
      | Some xs \<Rightarrow>
          if xs = [] then text_html
          else foldl (\<lambda>acc item. acc @ item_html item) (text_html @ open_tag) xs @ close_tag)"

definition build_text ::
  "string option \<Rightarrow> string list option \<Rightarrow> string list option \<Rightarrow> string list option \<Rightarrow> string
     \<Rightarrow> string" where
  "build_text heading textlines ordered_list unordered_list pos =
     (let position_class = get_text_position_class pos;
          text_html = [];
          text_html = add_heading position_class heading text_html;
          text_html = add_textlines position_class textlines text_html;
          text_html = add_list ol_open ''</ol>'' ordered_list text_html;
          text_html = add_list ul_open ''</ul>'' unordered_list text_html
      in text_html)"

definition adash_text ::
  "string option \<Rightarrow> string list option \<Rightarrow> string list option \<Rightarrow> string list option \<Rightarrow> string
     \<Rightarrow> 'd adash \<Rightarrow> (error + unit) \<times> 'd adash" where
  "adash_text heading textlines ordered_list unordered_list pos s =
     (Inr (), s\<lparr>texts_html := texts_html s @
        [build_text heading textlines ordered_list unordered_list pos]\<rparr>)"

section \<open>render_dashboard\<close>

text \<open>\<open>sep.join(xs)\<close>\<close>

fun join :: "string \<Rightarrow> string list \<Rightarrow> string" where
  "join sep [] = []"
| "join sep [x] = x"
| "join sep (x # y # ys) = x @ sep @ join sep (y # ys)"

definition title_html :: "plot \<Rightarrow> string" where
  "title_html p =
     (case title p of
        None \<Rightarrow> []
      | Some t \<Rightarrow>
          if t = [] then []
          else ''<h3 class='text-xl font-semibold '' @ get_title_position_class (position p)
                 @ '''>'' @ t @ ''</h3>'')"

definition plots_content :: "plot list \<Rightarrow> string" where
  "plots_content plots =
     foldl (\<lambda>acc p. acc @ title_html p @ ''\<newline>'' @ html p @ ''\<newline>'') [] plots"

definition content_html :: "'d adash \<Rightarrow> string" where
  "content_html s =
     join ''\<newline>'' (tables_html s) @ join ''\<newline>'' (texts_html s)
       @ plots_content (plots_html s)"

text \<open>
  The page template, cut at its three placeholders. jinja2's \<open>Template\<close> does not
  escape by default, so \<open>{{ title }}\<close> and \<open>{{ content|safe }}\<close> insert the two
  strings as they are; the template does not end in a newline, so nothing is stripped.
\<close>

definition template_before_title :: string where
  \<open>template_before_title = concat
    [''\<newline>'',
     ''        <!DOCTYPE html>\<newline>'',
     ''        <html lang="en">\<newline>'',
     ''        <head>\<newline>'',
     ''            <meta charset="UTF-8">\<newline>'',
     ''            <meta name="viewport" content="width=device-width, initial-scale=1.0">\<newline>'',
     ''            <title>'']\<close>

definition template_before_heading :: string where
  \<open>template_before_heading = concat
    [''</title>\<newline>'',
     ''            <link href="https://cdn.datatables.net/1.13.4/css/jquery.dataTables.min.css" rel="stylesheet">\<newline>'',
     ''            <link href="https://cdn.datatables.net/1.13.4/css/dataTables.bootstrap4.min.css" rel="stylesheet">\<newline>'',
     ''            <link href="https://cdn.jsdelivr.net/npm/tailwindcss@^2/dist/tailwind.min.css" rel="stylesheet">\<newline>'',
     ''        </head>\<newline>'',
     ''        <body>\<newline>'',
     ''            <div class="container mx-auto p-4">\<newline>'',
     ''                <h1 class="text-3xl font-bold mb-4">'']\<close>

definition template_before_content :: string where
  \<open>template_before_content = concat
    [''</h1>\<newline>'',
     ''                '']\<close>

definition template_after_content :: string where
  \<open>template_after_content = concat
    [''\<newline>'',
     ''            </div>\<newline>'',
     ''\<newline>'',
     ''            <script src="https://code.jquery.com/jquery-3.6.0.min.js"></script>\<newline>'',
     ''            <script src="https://cdn.datatables.net/1.13.4/js/jquery.dataTables.min.js"></script>\<newline>'',
     ''            <script>\<newline>'',
     ''                $(document).ready(function() {\<newline>'',
     ''                    $('table').DataTable({\<newline>'',
     ''                        "pagingType": "simple_numbers",\<newline>'',
     ''                        "lengthMenu": [10, 25, 50, 75, 100],\<newline>'',
     ''                        "pageLength": 10,\<newline>'',
     ''                        "responsive": true,\<newline>'',
     ''                        "autoWidth": false,\<newline>'',
     ''                        "searching": true,\<newline>'',
     ''                        "ordering": true,\<newline>'',
     ''                        "info": true,\<newline>'',
     ''                        "language": {\<newline>'',
     ''                            "search": "Search:",\<newline>'',
     ''                            "lengthMenu": "Show _MENU_ entries",\<newline>'',
     ''                            "info": "Showing _START_ to _END_ of _TOTAL_ entries",\<newline>'',
     ''                            "paginate": {\<newline>'',
     ''                                "first": "First",\<newline>'',
     ''                                "last": "Last",\<newline>'',
     ''                                "next": "Next",\<newline>'',
     ''                                "previous": "Previous"\<newline>'',
     ''                            }\<newline>'',
     ''                        }\<newline>'',
     ''                    });\<newline>'',
     ''                });\<newline>'',
     ''            </script>\<newline>'',
     ''        </body>\<newline>'',
     ''        </html>\<newline>'',
     ''        '']\<close>

definition render_template :: "string \<Rightarrow> string \<Rightarrow> string" where
  "render_template ttl content =
     template_before_title @ ttl @ template_before_heading @ ttl
       @ template_before_content @ content @ template_after_content"

definition default_title :: string where
  "default_title = ''Adash Dashboard''"

definition render_dashboard :: "string \<Rightarrow> 'd adash \<Rightarrow> (error + string) \<times> 'd adash" where
  "render_dashboard ttl s = (Inr (render_template ttl (content_html s)), s)"

section \<open>Sequences of calls\<close>

text \<open>
  A host script issues the three fragment-adding methods in any order. A call that
  raises is caught by the host and the script goes on with the object as the call
  left it; a script that stops at the first exception is the run of the calls before
  it. A call of \<open>adash_plot\<close> comes with the ids its \<open>to_html\<close> calls draw.
\<close>

datatype ('d, 'f) call =
    AddTable "'d pyval option"
  | AddText "string option" "string list option" "string list option" "string list option" string
  | AddChart "nat \<Rightarrow> string" "'f option" string "string option" string

fun do_call :: "('d, 'f) libs \<Rightarrow> ('d, 'f) call \<Rightarrow> 'd adash \<Rightarrow> (error + unit) \<times> 'd adash" where
  "do_call L (AddTable dat) s = adash_table L dat s"
| "do_call L (AddText heading textlines ordered_list unordered_list pos) s =
     adash_text heading textlines ordered_list unordered_list pos s"
| "do_call L (AddChart ids fig plot_type ttl pos) s = adash_plot L ids fig plot_type ttl pos s"

fun run_calls :: "('d, 'f) libs \<Rightarrow> ('d, 'f) call list \<Rightarrow> 'd adash \<Rightarrow> 'd adash" where
  "run_calls L [] s = s"
| "run_calls L (c # cs) s = run_calls L cs (snd (do_call L c s))"

fun is_table :: "('d, 'f) call \<Rightarrow> bool" where
  "is_table (AddTable _) = True"
| "is_table _ = False"

fun is_text :: "('d, 'f) call \<Rightarrow> bool" where
  "is_text (AddText _ _ _ _ _) = True"
| "is_text _ = False"

fun is_chart :: "('d, 'f) call \<Rightarrow> bool" where
  "is_chart (AddChart _ _ _ _ _) = True"
| "is_chart _ = False"

section \<open>Auxiliary definitions for the statements\<close>

text \<open>
  The dictionary one slot of the layout appends, once its figure is built and its
  markup has drawn the id \<open>i\<close>.
\<close>

definition slot_plot ::
  "('d, 'f) libs \<Rightarrow> 'f \<Rightarrow> string option \<Rightarrow> string \<Rightarrow> string \<Rightarrow> plot" where
  "slot_plot L fig ttl pos i =
     \<lparr>html = fig_to_html L (case ttl of None \<Rightarrow> fig | Some t \<Rightarrow> update_layout L fig t) i,
      title = ttl, position = pos\<rparr>"

text \<open>
  The fragments of the page, by category, that one call of a host script stands for.
  They are written down on their own, from what a call is asked to contribute, and
  are compared below with what the methods append.

  A table call contributes the markup of one DataFrame: the one passed, the one read
  from the \<open>.csv\<close> or \<open>.html\<close> path passed, or the loaded one when nothing is passed;
  it contributes nothing when there is no such DataFrame.
\<close>

definition table_fragments ::
  "('d, 'f) libs \<Rightarrow> 'd pyval option \<Rightarrow> ('d, 'f) call \<Rightarrow> string list" where
  "table_fragments L loaded_data c =
     (case c of
        AddTable None \<Rightarrow>
          (case loaded_data of Some (DataFrame d) \<Rightarrow> [to_html L d] | _ \<Rightarrow> [])
      | AddTable (Some (DataFrame d)) \<Rightarrow> [to_html L d]
      | AddTable (Some (Str p)) \<Rightarrow>
          (if endswith p ''.csv'' then
             (case read_csv L (Str p) of Inr df \<Rightarrow> [to_html L df] | Inl _ \<Rightarrow> [])
           else if endswith p ''.html'' then
             (case read_html L (Str p) of Inr (df # _) \<Rightarrow> [to_html L df] | _ \<Rightarrow> [])
           else [])
      | _ \<Rightarrow> [])"

text \<open>A text call contributes one block, whatever its arguments.\<close>

definition text_fragments :: "('d, 'f) call \<Rightarrow> string list" where
  "text_fragments c =
     (case c of
        AddText heading textlines ordered_list unordered_list pos \<Rightarrow>
          [build_text heading textlines ordered_list unordered_list pos]
      | _ \<Rightarrow> [])"

text \<open>
  A chart call with a figure contributes that figure's markup. Without a figure it
  contributes one plot per slot of the layout, the plot of slot number \<open>i\<close> (counted
  row after row) carrying the \<open>i\<close>-th id drawn; it contributes nothing when there is no
  data, no layout, or the chart cannot be built.
\<close>

definition chart_fragments ::
  "('d, 'f) libs \<Rightarrow> 'd pyval option \<Rightarrow> layout option \<Rightarrow> ('d, 'f) call \<Rightarrow> plot list" where
  "chart_fragments L loaded_data lay c =
     (case c of
        AddChart ids (Some f) plot_type ttl pos \<Rightarrow>
          [\<lparr>html = fig_to_html L f (ids 0), title = ttl, position = pos\<rparr>]
      | AddChart ids None plot_type ttl pos \<Rightarrow>
          (case (loaded_data, lay) of
             (Some dat, Some l) \<Rightarrow>
               (case make_fig L plot_type (Some dat) of
                  Inr fig \<Rightarrow> map (\<lambda>i. slot_plot L fig ttl pos (ids i)) [0..<total_slots l]
                | Inl _ \<Rightarrow> [])
           | _ \<Rightarrow> [])
      | _ \<Rightarrow> [])"

text \<open>\<open>sep.join(xs)\<close>, written without recursion.\<close>

definition joined :: "string \<Rightarrow> string list \<Rightarrow> string" where
  "joined sep xs = (case xs of [] \<Rightarrow> [] | x # ys \<Rightarrow> x @ concat (map (\<lambda>y. sep @ y) ys))"

text \<open>
  Stand-ins for pandas and plotly in the examples: a DataFrame is the list of its
  column names, a figure is a string, and no file can be read.
\<close>

definition stub_libs :: "(string list, string) libs" where
  "stub_libs =
     \<lparr>read_csv = (\<lambda>_. Inl (ExternalError ''FileNotFoundError'')),
      read_html = (\<lambda>_. Inl (ExternalError ''FileNotFoundError'')),
      to_html = (\<lambda>d. ''<table>'' @ concat d @ ''</table>''),
      df_columns = (\<lambda>d. d),
      px_line = (\<lambda>d x y. Inr (''line '' @ x @ '' '' @ y)),
      px_bar = (\<lambda>d x y. Inr (''bar '' @ x @ '' '' @ y)),
      px_scatter = (\<lambda>d x y. Inr (''scatter '' @ x @ '' '' @ y)),
      px_histogram = (\<lambda>d x y. Inr (''histogram '' @ x @ '' '' @ y)),
      update_layout = (\<lambda>f t. f @ '' '' @ t),
      fig_to_html = (\<lambda>f i. ''<div id='' @ i @ ''>'' @ f @ ''</div>'')\<rparr>"

text \<open>Ids for the examples: \<open>u\<close>, \<open>uu\<close>, \<open>uuu\<close> and so on.\<close>

definition example_ids :: "nat \<Rightarrow> string" where
  "example_ids n = replicate (Suc n) (CHR ''u'')"

text \<open>An object with a two-column DataFrame loaded and nothing else set.\<close>

definition loaded :: "string list adash" where
  "loaded = snd (input_file stub_libs (DataFrame [''Date'', ''Value'']) ''df'' init)"

text \<open>The same object after \<open>set_layout\<close>.\<close>

definition laid_out :: "int list \<Rightarrow> string list adash" where
  "laid_out layout_array = snd (set_layout layout_array loaded)"

text \<open>An object whose DataFrame has a single column, with the layout of the source's example.\<close>

definition one_column :: "string list adash" where
  "one_column =
     snd (set_layout [2, 3] (snd (input_file stub_libs (DataFrame [''Value'']) ''df'' init)))"

section \<open>Facts about the plotting loop\<close>

text \<open>
  Every iteration of the nested loop builds its figure from the same data, kind and
  title, so the loop either fails in its first iteration, before anything is
  appended, or appends one dictionary per slot, the \<open>i\<close>-th of them with the markup
  that drew the \<open>i\<close>-th id.
\<close>

lemma plot_slot_ok:
  "make_fig L pt (data s) = Inr fig \<Longrightarrow>
   plot_slot L ids pt ttl pos s n =
     (Inr (), s\<lparr>plots_html := plots_html s @ [slot_plot L fig ttl pos (ids n)]\<rparr>, Suc n)"
  by (simp add: plot_slot_def slot_plot_def)

lemma plot_slot_err:
  "make_fig L pt (data s) = Inl e \<Longrightarrow> plot_slot L ids pt ttl pos s n = (Inl e, s, n)"
  by (simp add: plot_slot_def)

lemma upt_step: "n # [Suc n..<Suc (n + k)] = [n..<Suc (n + k)]"
  by (simp add: upt_conv_Cons)

lemma plot_cols_ok:
  "make_fig L pt (data s) = Inr fig \<Longrightarrow>
   plot_cols L ids pt ttl pos cs s n =
     (Inr (),
      s\<lparr>plots_html := plots_html s @
          map (\<lambda>i. slot_plot L fig ttl pos (ids i)) [n..<n + length cs]\<rparr>,
      n + length cs)"
proof (induction cs arbitrary: s n)
  case Nil
  then show ?case by simp
next
  case (Cons c cs)
  let ?s1 = "s\<lparr>plots_html := plots_html s @ [slot_plot L fig ttl pos (ids n)]\<rparr>"
  have "make_fig L pt (data ?s1) = Inr fig" using Cons.prems by simp
  from Cons.IH [OF this, of "Suc n"] show ?case
    by (simp add: plot_slot_ok [OF Cons.prems] upt_step [symmetric] del: upt_Suc)
qed

lemma plot_cols_err:
  "make_fig L pt (data s) = Inl e \<Longrightarrow>
   plot_cols L ids pt ttl pos cs s n = (if cs = [] then (Inr (), s, n) else (Inl e, s, n))"
  by (cases cs) (simp_all add: plot_slot_err)

lemma plot_rows_ok:
  "make_fig L pt (data s) = Inr fig \<Longrightarrow>
   plot_rows L ids pt ttl pos rs s n =
     (Inr (),
      s\<lparr>plots_html := plots_html s @
          map (\<lambda>i. slot_plot L fig ttl pos (ids i))
            [n..<n + sum_list (map (\<lambda>r. length (columns r)) rs)]\<rparr>,
      n + sum_list (map (\<lambda>r. length (columns r)) rs))"
proof (induction rs arbitrary: s n)
  case Nil
  then show ?case by simp
next
  case (Cons r rs)
  let ?k = "length (columns r)"
  let ?s1 = "s\<lparr>plots_html := plots_html s @
      map (\<lambda>i. slot_plot L fig ttl pos (ids i)) [n..<n + ?k]\<rparr>"
  have mf: "make_fig L pt (data ?s1) = Inr fig" using Cons.prems by simp
  have split: "[n..<n + (?k + m)] = [n..<n + ?k] @ [n + ?k..<n + ?k + m]" for m
    using upt_add_eq_append [of n "n + ?k" m] by (simp add: add.assoc)
  from Cons.IH [OF mf, of "n + ?k"] show ?case
    by (simp add: plot_cols_ok [OF Cons.prems] split)
qed

lemma plot_rows_err:
  "make_fig L pt (data s) = Inl e \<Longrightarrow>
   plot_rows L ids pt ttl pos rs s n =
     (if sum_list (map (\<lambda>r. length (columns r)) rs) = 0 then (Inr (), s, n) else (Inl e, s, n))"
proof (induction rs)
  case Nil
  then show ?case by simp
next
  case (Cons r rs)
  then show ?case by (simp add: plot_cols_err)
qed

lemma adash_plot_layout_ok:
  assumes "data s = Some dat" and "layout_config s = Some lay"
    and "make_fig L pt (Some dat) = Inr fig"
  shows "adash_plot L ids None pt ttl pos s =
     (Inr (), s\<lparr>plots_html := plots_html s @
        map (\<lambda>i. slot_plot L fig ttl pos (ids i)) [0..<total_slots lay]\<rparr>)"
proof -
  have "make_fig L pt (data s) = Inr fig" using assms by simp
  from plot_rows_ok [OF this, of ids ttl pos "rows lay" 0] show ?thesis
    using assms(1,2) by (simp add: adash_plot_def total_slots_def)
qed

lemma adash_plot_layout_err:
  assumes "data s = Some dat" and "layout_config s = Some lay"
    and "make_fig L pt (Some dat) = Inl e"
  shows "adash_plot L ids None pt ttl pos s =
     (if total_slots lay = 0 then (Inr (), s) else (Inl e, s))"
proof -
  have "make_fig L pt (data s) = Inl e" using assms by simp
  from plot_rows_err [OF this, of ids ttl pos "rows lay" 0] show ?thesis
    using assms(1,2) by (simp add: adash_plot_def total_slots_def)
qed


lemma loaded_simps:
  "data loaded = Some (DataFrame [''Date'', ''Value''])"
  "layout_config loaded = None"
  "plots_html loaded = []" "tables_html loaded = []" "texts_html loaded = []"
  by (simp_all add: loaded_def input_file_def init_def)

lemma laid_out_simps:
  "data (laid_out xs) = Some (DataFrame [''Date'', ''Value''])"
  "layout_config (laid_out xs) = Some \<lparr>rows = map row_of xs\<rparr>"
  "plots_html (laid_out xs) = []" "tables_html (laid_out xs) = []" "texts_html (laid_out xs) = []"
  by (simp_all add: laid_out_def set_layout_def loaded_simps)

lemma total_slots_row_of: "total_slots \<lparr>rows = map row_of xs\<rparr> = sum_list (map nat xs)"
  by (simp add: total_slots_def row_of_def comp_def)

section \<open>adash_plot without a layout\<close>

text \<open>
  Claim C1, as the code has it: with data loaded and no layout set, \<open>adash_plot\<close> with
  a plot type and no figure appends nothing and raises a TypeError (the unset layout,
  \<open>None\<close>, is subscripted), whatever the plot type; the object is left as it was.
\<close>

theorem adash_plot_without_layout:
  assumes "data s = Some dat" and "layout_config s = None"
  shows "adash_plot L ids None plot_type ttl pos s = (Inl TypeError, s)"
  using assms by (simp add: adash_plot_def)

text \<open>An instance: a bar chart requested right after loading a DataFrame.\<close>

theorem adash_plot_without_layout_witness:
  "data loaded = Some (DataFrame [''Date'', ''Value'']) \<and> layout_config loaded = None
   \<and> adash_plot stub_libs example_ids None ''bar'' (Some ''Sales'') ''left'' loaded
       = (Inl TypeError, loaded)"
  using adash_plot_without_layout [of loaded "DataFrame [''Date'', ''Value'']" stub_libs
      example_ids "''bar''" "Some ''Sales''" "''left''"]
  by (simp add: loaded_simps)

text \<open>
  The call does not return normally, so "appends nothing and does not fail" is not what
  happens on a loaded object without a layout.
\<close>

theorem adash_plot_without_layout_raises:
  "data loaded \<noteq> None \<and> layout_config loaded = None
   \<and> fst (adash_plot stub_libs example_ids None ''line'' None ''center'' loaded) = Inl TypeError"
  by (simp add: loaded_simps adash_plot_def)

section \<open>adash_plot with an unsupported plot type\<close>

text \<open>
  Claim C3, as the code has it: with data loaded and a layout of at least one slot,
  \<open>adash_plot\<close> with no figure and a plot type other than line, bar, scatter and
  histogram raises the "Unsupported plot type" ValueError, and appends nothing.
\<close>

theorem adash_plot_unsupported_kind:
  assumes "data s = Some dat" and "layout_config s = Some lay" and "1 \<le> total_slots lay"
    and "plot_type \<notin> {''line'', ''bar'', ''scatter'', ''histogram''}"
  shows "adash_plot L ids None plot_type ttl pos s = (Inl unsupported_plot_type, s)"
proof -
  have "make_fig L plot_type (Some dat) = Inl unsupported_plot_type"
    using assms(4) by (simp add: make_fig_def)
  from adash_plot_layout_err [OF assms(1,2) this] assms(3) show ?thesis
    by simp
qed

text \<open>An instance: a pie chart on the layout \<open>[2, 3]\<close>.\<close>

theorem adash_plot_unsupported_kind_witness:
  "data (laid_out [2, 3]) = Some (DataFrame [''Date'', ''Value''])
   \<and> layout_config (laid_out [2, 3]) = Some \<lparr>rows = map row_of [2, 3]\<rparr>
   \<and> 1 \<le> total_slots \<lparr>rows = map row_of [2, 3]\<rparr>
   \<and> ''pie'' \<notin> {''line'', ''bar'', ''scatter'', ''histogram''}
   \<and> adash_plot stub_libs example_ids None ''pie'' None ''center'' (laid_out [2, 3])
       = (Inl unsupported_plot_type, laid_out [2, 3])"
proof -
  have slots: "1 \<le> total_slots \<lparr>rows = map row_of [2, 3]\<rparr>"
    using total_slots_row_of [of "[2, 3]"] by simp
  have kind: "''pie'' \<notin> {''line'', ''bar'', ''scatter'', ''histogram''}" by simp
  from adash_plot_unsupported_kind [OF laid_out_simps(1) laid_out_simps(2) slots kind]
  show ?thesis using slots laid_out_simps(1,2) [of "[2, 3]"] kind by blast
qed

text \<open>
  The plot type is tested inside the loop body only: on a layout without slots the
  same call returns normally.
\<close>

theorem adash_plot_unsupported_kind_empty_layout:
  "data (laid_out [0]) \<noteq> None \<and> layout_config (laid_out [0]) \<noteq> None
   \<and> ''pie'' \<notin> {''line'', ''bar'', ''scatter'', ''histogram''}
   \<and> adash_plot stub_libs example_ids None ''pie'' None ''center'' (laid_out [0])
       = (Inr (), laid_out [0])"
  by (simp add: laid_out_simps adash_plot_def row_of_def)

section \<open>adash_plot with a layout and a supported plot type\<close>

lemma one_column_simps:
  "data one_column = Some (DataFrame [''Value''])"
  "layout_config one_column = Some \<lparr>rows = map row_of [2, 3]\<rparr>"
  "plots_html one_column = []"
  by (simp_all add: one_column_def set_layout_def input_file_def init_def)

lemma make_fig_two_columns:
  "make_fig L plot_type (Some (DataFrame d)) = Inr fig \<Longrightarrow> 2 \<le> length (df_columns L d)"
  by (auto simp: make_fig_def px_call_def column_at_def split: if_splits)





section \<open>set_layout does not validate\<close>

text \<open>
  Claim C2, as the code has it: \<open>set_layout\<close> never raises, whatever the integers;
  it stores a layout with one row per count, and the row of a count \<open>c\<close> has
  \<open>max 0 c\<close> slots, so a negative count gives a row without slots.
\<close>

theorem set_layout_never_fails:
  "fst (set_layout layout_array s) = Inr ()
   \<and> (\<exists>lay. layout_config (snd (set_layout layout_array s)) = Some lay
        \<and> map (\<lambda>r. length (columns r)) (rows lay) = map nat layout_array)"
  by (simp add: set_layout_def row_of_def comp_def)

text \<open>A negative count is accepted: the second row is empty.\<close>

theorem set_layout_negative_count:
  "set_layout [2, -1] (init :: string list adash) =
     (Inr (), init\<lparr>layout_config := Some \<lparr>rows =
        [\<lparr>columns = [\<lparr>type = ''plot'', index = 0\<rparr>, \<lparr>type = ''plot'', index = 1\<rparr>]\<rparr>,
         \<lparr>columns = []\<rparr>]\<rparr>\<rparr>)"
  by (simp add: set_layout_def row_of_def eval_nat_numeral)

section \<open>adash_text\<close>

text \<open>
  Claim C6 says that the heading, the paragraphs and both list blocks carry the
  alignment class. The heading and the paragraph do; the opening tags of the ordered
  and the unordered list are not f-strings, so they carry the text
  \<open>{position_class}\<close> itself instead of the class, here \<open>text-left\<close>.
\<close>

theorem adash_text_list_class_literal:
  "adash_text (Some ''H'') (Some [''p'']) (Some [''a'']) (Some [''b'']) ''left''
     (init :: string list adash) =
     (Inr (), init\<lparr>texts_html :=
        [''<h2 class='text-2xl font-bold text-left'>H</h2>'' @
         ''<p class='mt-2 text-left'>p</p>'' @
         ''<ol class='mt-2 list-decimal list-inside {position_class}'><li>a</li></ol>'' @
         ''<ul class='mt-2 list-disc list-inside {position_class}'><li>b</li></ul>'']\<rparr>)"
  by (simp add: adash_text_def build_text_def add_heading_def add_textlines_def add_list_def
      heading_html_def paragraph_html_def item_html_def ol_open_def ul_open_def
      get_text_position_class_def init_def)

text \<open>
  Claim C10: with every content argument absent, \<open>adash_text\<close> appends one fragment,
  the empty string; and for all arguments (a heading that is a string or absent, lists
  of strings or absent) the call returns normally and appends exactly one fragment.
\<close>

theorem adash_text_always_appends:
  "adash_text None None None None pos s = (Inr (), s\<lparr>texts_html := texts_html s @ ['''']\<rparr>)
   \<and> fst (adash_text heading textlines ordered_list unordered_list pos' s') = Inr ()
   \<and> length (texts_html (snd (adash_text heading textlines ordered_list unordered_list pos' s')))
       = length (texts_html s') + 1"
  by (simp add: adash_text_def build_text_def add_heading_def add_textlines_def add_list_def)

section \<open>A call that raises leaves the object unchanged\<close>

lemma make_fig_unsupported:
  "plot_type \<notin> {''line'', ''bar'', ''scatter'', ''histogram''} \<Longrightarrow>
   make_fig L plot_type dat = Inl unsupported_plot_type"
  by (simp add: make_fig_def)

lemma input_file_failed:
  "isl (fst (input_file L dat file_type s)) \<Longrightarrow> snd (input_file L dat file_type s) = s"
  by (auto simp: input_file_def split: if_splits sum.splits)

lemma adash_table_failed:
  "isl (fst (adash_table L dat s)) \<Longrightarrow> snd (adash_table L dat s) = s"
  by (auto simp: adash_table_def append_table_def
      split: option.splits pyval.splits if_splits sum.splits)

lemma adash_plot_failed:
  assumes "isl (fst (adash_plot L ids fig plot_type ttl pos s))"
  shows "snd (adash_plot L ids fig plot_type ttl pos s) = s"
proof (cases fig)
  case (Some f)
  with assms show ?thesis by (simp add: adash_plot_def)
next
  case None
  note fig = this
  show ?thesis
  proof (cases "data s")
    case None
    with fig show ?thesis by (simp add: adash_plot_def)
  next
    case (Some dat)
    note dat = this
    show ?thesis
    proof (cases "layout_config s")
      case None
      with fig dat show ?thesis by (simp add: adash_plot_def)
    next
      case (Some lay)
      show ?thesis
      proof (cases "make_fig L plot_type (Some dat)")
        case (Inl e)
        from adash_plot_layout_err [OF dat Some Inl] show ?thesis
          unfolding fig by (simp split: if_splits)
      next
        case (Inr g)
        from adash_plot_layout_ok [OF dat Some Inr] assms show ?thesis
          unfolding fig by simp
      qed
    qed
  qed
qed

lemma adash_plot_unsupported:
  assumes "data s = Some dat" and "layout_config s = Some lay" and "1 \<le> total_slots lay"
    and "plot_type \<notin> {''line'', ''bar'', ''scatter'', ''histogram''}"
  shows "adash_plot L ids None plot_type ttl pos s = (Inl unsupported_plot_type, s)"
  using adash_plot_layout_err [OF assms(1,2) make_fig_unsupported [OF assms(4)]] assms(3)
  by simp

text \<open>
  Claim C7, as the code has it. These calls raise, and leave the object as it was:
  \<open>input_file\<close> with a file type other than df, csv and html; \<open>adash_table\<close> with a
  path that ends neither in \<open>.csv\<close> nor in \<open>.html\<close>; \<open>adash_table\<close> with no argument
  and no data; \<open>adash_plot\<close> with no figure and no data; \<open>adash_plot\<close> with no figure
  and an unsupported plot type, on loaded data and a layout of at least one slot. And
  whenever \<open>input_file\<close>, \<open>adash_table\<close> or \<open>adash_plot\<close> raises, for whatever reason,
  the object is exactly as it was before the call: no fragment appended, the data not
  replaced. (\<open>set_layout\<close>, \<open>adash_text\<close> and \<open>render_dashboard\<close> never raise.)
\<close>

theorem failed_call_leaves_state:
  "(file_type \<notin> {''df'', ''csv'', ''html''}
      \<longrightarrow> input_file L dat file_type s1 = (Inl unsupported_file_type, s1))
   \<and> (\<not> endswith p ''.csv'' \<and> \<not> endswith p ''.html''
      \<longrightarrow> adash_table L (Some (Str p)) s2 = (Inl unsupported_file_format, s2))
   \<and> (data s3 = None \<longrightarrow> adash_table L None s3 = (Inl no_data_available, s3))
   \<and> (data s4 = None
      \<longrightarrow> adash_plot L ids4 None plot_type4 ttl4 pos4 s4 = (Inl no_data_or_figure, s4))
   \<and> (data s5 = Some dat5 \<and> layout_config s5 = Some lay5 \<and> 1 \<le> total_slots lay5
        \<and> plot_type5 \<notin> {''line'', ''bar'', ''scatter'', ''histogram''}
      \<longrightarrow> adash_plot L ids5 None plot_type5 ttl5 pos5 s5 = (Inl unsupported_plot_type, s5))
   \<and> (isl (fst (input_file L dat6 file_type6 s6))
      \<longrightarrow> snd (input_file L dat6 file_type6 s6) = s6)
   \<and> (isl (fst (adash_table L src7 s7)) \<longrightarrow> snd (adash_table L src7 s7) = s7)
   \<and> (isl (fst (adash_plot L ids8 fig8 plot_type8 ttl8 pos8 s8))
      \<longrightarrow> snd (adash_plot L ids8 fig8 plot_type8 ttl8 pos8 s8) = s8)"
proof (intro conjI impI)
  show "input_file L dat file_type s1 = (Inl unsupported_file_type, s1)"
    if "file_type \<notin> {''df'', ''csv'', ''html''}"
    using that by (simp add: input_file_def)
  show "adash_table L (Some (Str p)) s2 = (Inl unsupported_file_format, s2)"
    if "\<not> endswith p ''.csv'' \<and> \<not> endswith p ''.html''"
    using that by (simp add: adash_table_def)
  show "adash_table L None s3 = (Inl no_data_available, s3)" if "data s3 = None"
    using that by (simp add: adash_table_def)
  show "adash_plot L ids4 None plot_type4 ttl4 pos4 s4 = (Inl no_data_or_figure, s4)"
    if "data s4 = None"
    using that by (simp add: adash_plot_def)
  show "adash_plot L ids5 None plot_type5 ttl5 pos5 s5 = (Inl unsupported_plot_type, s5)"
    if "data s5 = Some dat5 \<and> layout_config s5 = Some lay5 \<and> 1 \<le> total_slots lay5
        \<and> plot_type5 \<notin> {''line'', ''bar'', ''scatter'', ''histogram''}"
    using that adash_plot_unsupported [of s5 dat5 lay5 plot_type5] by blast
  show "snd (input_file L dat6 file_type6 s6) = s6"
    if "isl (fst (input_file L dat6 file_type6 s6))"
    using that by (rule input_file_failed)
  show "snd (adash_table L src7 s7) = s7" if "isl (fst (adash_table L src7 s7))"
    using that by (rule adash_table_failed)
  show "snd (adash_plot L ids8 fig8 plot_type8 ttl8 pos8 s8) = s8"
    if "isl (fst (adash_plot L ids8 fig8 plot_type8 ttl8 pos8 s8))"
    using that by (rule adash_plot_failed)
qed

text \<open>
  Instances: the five calls above, and three calls that raise for another reason (a
  file that cannot be read, twice, and a DataFrame with a single column).
\<close>

theorem failed_call_leaves_state_witness:
  "''xlsx'' \<notin> {''df'', ''csv'', ''html''}
   \<and> input_file stub_libs (Str ''sales.xlsx'') ''xlsx'' (laid_out [2, 3])
       = (Inl unsupported_file_type, laid_out [2, 3])
   \<and> \<not> endswith ''sales.xlsx'' ''.csv'' \<and> \<not> endswith ''sales.xlsx'' ''.html''
   \<and> adash_table stub_libs (Some (Str ''sales.xlsx'')) (laid_out [2, 3])
       = (Inl unsupported_file_format, laid_out [2, 3])
   \<and> data (init :: string list adash) = None
   \<and> adash_table stub_libs None init = (Inl no_data_available, init)
   \<and> adash_plot stub_libs example_ids None ''line'' None ''center'' init
       = (Inl no_data_or_figure, init)
   \<and> ''pie'' \<notin> {''line'', ''bar'', ''scatter'', ''histogram''}
   \<and> adash_plot stub_libs example_ids None ''pie'' None ''center'' (laid_out [2, 3])
       = (Inl unsupported_plot_type, laid_out [2, 3])
   \<and> isl (fst (input_file stub_libs (Str ''sales.csv'') ''csv'' (laid_out [2, 3])))
   \<and> snd (input_file stub_libs (Str ''sales.csv'') ''csv'' (laid_out [2, 3])) = laid_out [2, 3]
   \<and> isl (fst (adash_table stub_libs (Some (Str ''sales.csv'')) (laid_out [2, 3])))
   \<and> snd (adash_table stub_libs (Some (Str ''sales.csv'')) (laid_out [2, 3])) = laid_out [2, 3]
   \<and> isl (fst (adash_plot stub_libs example_ids None ''line'' None ''center'' one_column))
   \<and> snd (adash_plot stub_libs example_ids None ''line'' None ''center'' one_column) = one_column"
proof -
  let ?lay = "\<lparr>rows = map row_of [2, 3]\<rparr>"
  have h1: "''xlsx'' \<notin> {''df'', ''csv'', ''html''}" by simp
  have h2: "\<not> endswith ''sales.xlsx'' ''.csv'' \<and> \<not> endswith ''sales.xlsx'' ''.html''"
    by (simp add: endswith_def)
  have h3: "data (init :: string list adash) = None" by (simp add: init_def)
  have h5: "data (laid_out [2, 3]) = Some (DataFrame [''Date'', ''Value''])
      \<and> layout_config (laid_out [2, 3]) = Some ?lay \<and> 1 \<le> total_slots ?lay
      \<and> ''pie'' \<notin> {''line'', ''bar'', ''scatter'', ''histogram''}"
    using total_slots_row_of [of "[2, 3]"] by (simp add: laid_out_simps)
  have h6: "isl (fst (input_file stub_libs (Str ''sales.csv'') ''csv'' (laid_out [2, 3])))"
    by (simp add: input_file_def stub_libs_def)
  have h7: "isl (fst (adash_table stub_libs (Some (Str ''sales.csv'')) (laid_out [2, 3])))"
    by (simp add: adash_table_def endswith_def stub_libs_def)
  have "make_fig stub_libs ''line'' (Some (DataFrame [''Value''])) = Inl IndexError"
    by (simp add: make_fig_def px_call_def column_at_def stub_libs_def)
  from adash_plot_layout_err [OF one_column_simps(1) one_column_simps(2) this,
      of example_ids None "''center''"] total_slots_row_of [of "[2, 3]"]
  have h8: "isl (fst (adash_plot stub_libs example_ids None ''line'' None ''center'' one_column))"
    by simp
  from failed_call_leaves_state [of "''xlsx''" stub_libs "Str ''sales.xlsx''" "laid_out [2, 3]"
      "''sales.xlsx''" "laid_out [2, 3]" init init example_ids "''line''" None "''center''"
      "laid_out [2, 3]" "DataFrame [''Date'', ''Value'']" ?lay "''pie''" example_ids None
      "''center''" "Str ''sales.csv''" "''csv''" "laid_out [2, 3]" "Some (Str ''sales.csv'')"
      "laid_out [2, 3]" example_ids None "''line''" None "''center''" one_column]
    h1 h2 h3 h5 h6 h7 h8
  show ?thesis by blast
qed

text \<open>
  Not every call with an unsupported argument raises: \<open>adash_table\<close> with an object
  that is neither a DataFrame nor a \<open>str\<close> returns normally (its \<open>isinstance\<close>
  chain has no \<open>else\<close>), and so does \<open>adash_plot\<close> with an unsupported plot type on a
  layout without slots.
\<close>

theorem adash_table_other_object_returns:
  "adash_table stub_libs (Some OtherObj) (laid_out [2, 3]) = (Inr (), laid_out [2, 3])
   \<and> data (laid_out []) \<noteq> None \<and> layout_config (laid_out []) \<noteq> None
   \<and> ''pie'' \<notin> {''line'', ''bar'', ''scatter'', ''histogram''}
   \<and> adash_plot stub_libs example_ids None ''pie'' None ''center'' (laid_out [])
       = (Inr (), laid_out [])"
  by (simp add: adash_table_def laid_out_simps adash_plot_def)

section \<open>render_dashboard\<close>

text \<open>
  Claim C8: \<open>render_dashboard\<close> leaves the object as it is, and a second call with the
  same title returns the same string (and again the same object).
\<close>

theorem render_dashboard_pure_read:
  "snd (render_dashboard ttl s) = s
   \<and> render_dashboard ttl (snd (render_dashboard ttl s)) = render_dashboard ttl s"
  by (simp add: render_dashboard_def)

text \<open>
  Claim C9: a position outside left, right, justify, start and end gives a text block
  the class \<open>text-center\<close>; a position outside left and right gives a plot title the
  class \<open>text-center\<close>.
\<close>

theorem position_class_fallback:
  "(pos \<notin> {''left'', ''right'', ''justify'', ''start'', ''end''}
      \<longrightarrow> get_text_position_class pos = ''text-center'')
   \<and> (pos' \<notin> {''left'', ''right''} \<longrightarrow> get_title_position_class pos' = ''text-center'')"
  by (simp add: get_text_position_class_def get_title_position_class_def)

text \<open>
  Instances: \<open>middle\<close> for a text block, and \<open>justify\<close>, which a text block knows and a
  plot title does not.
\<close>

theorem position_class_fallback_witness:
  "''middle'' \<notin> {''left'', ''right'', ''justify'', ''start'', ''end''}
   \<and> get_text_position_class ''middle'' = ''text-center''
   \<and> ''justify'' \<notin> {''left'', ''right''}
   \<and> get_title_position_class ''justify'' = ''text-center''"
  using position_class_fallback [of "''middle''" "''justify''"] by simp

section \<open>The order of the categories in the page\<close>

text \<open>
  What a call does to the object: it appends the fragments it stands for to the list
  of its own category and changes nothing else.
\<close>

lemma join_joined: "join sep xs = joined sep xs"
  by (induction sep xs rule: join.induct) (simp_all add: joined_def)

lemma foldl_append_concat: "foldl (\<lambda>acc x. acc @ g x) a xs = a @ concat (map g xs)"
  by (induction xs arbitrary: a) simp_all

lemma plots_content_concat:
  "plots_content plots = concat (map (\<lambda>p. title_html p @ ''\<newline>'' @ html p @ ''\<newline>'') plots)"
  unfolding plots_content_def by (simp add: foldl_append_concat)

lemma adash_plot_effect:
  "snd (adash_plot L ids fig plot_type ttl pos s) =
     s\<lparr>plots_html := plots_html s @
        chart_fragments L (data s) (layout_config s) (AddChart ids fig plot_type ttl pos)\<rparr>"
proof (cases fig)
  case (Some f)
  then show ?thesis by (simp add: adash_plot_def chart_fragments_def)
next
  case None
  note fig = this
  show ?thesis
  proof (cases "data s")
    case None
    with fig show ?thesis by (simp add: adash_plot_def chart_fragments_def)
  next
    case (Some dat)
    note dat = this
    show ?thesis
    proof (cases "layout_config s")
      case None
      with fig dat show ?thesis by (simp add: adash_plot_def chart_fragments_def)
    next
      case (Some lay)
      show ?thesis
      proof (cases "make_fig L plot_type (Some dat)")
        case (Inl e)
        from adash_plot_layout_err [OF dat Some Inl]
        show ?thesis unfolding fig by (simp add: chart_fragments_def dat Some Inl)
      next
        case (Inr g)
        from adash_plot_layout_ok [OF dat Some Inr]
        show ?thesis unfolding fig by (simp add: chart_fragments_def dat Some Inr)
      qed
    qed
  qed
qed

lemma adash_table_effect:
  "snd (adash_table L dat s) =
     s\<lparr>tables_html := tables_html s @ table_fragments L (data s) (AddTable dat)\<rparr>"
  by (auto simp: adash_table_def append_table_def table_fragments_def first_table_def
      split: option.splits pyval.splits if_splits sum.splits list.splits)

lemma adash_text_effect:
  "snd (adash_text heading textlines ordered_list unordered_list pos s) =
     s\<lparr>texts_html := texts_html s @
        [build_text heading textlines ordered_list unordered_list pos]\<rparr>"
  by (simp add: adash_text_def)

lemma table_fragments_other: "\<not> is_table c \<Longrightarrow> table_fragments L dat c = []"
  by (cases c) (simp_all add: table_fragments_def)

lemma text_fragments_other: "\<not> is_text c \<Longrightarrow> text_fragments c = []"
  by (cases c) (simp_all add: text_fragments_def)

lemma chart_fragments_other: "\<not> is_chart c \<Longrightarrow> chart_fragments L dat lay c = []"
  by (cases c) (simp_all add: chart_fragments_def)

lemma do_call_effect:
  "snd (do_call L c s) =
     s\<lparr>plots_html := plots_html s @ chart_fragments L (data s) (layout_config s) c,
       tables_html := tables_html s @ table_fragments L (data s) c,
       texts_html := texts_html s @ text_fragments c\<rparr>"
proof (cases c)
  case (AddTable dat)
  then show ?thesis
    using chart_fragments_other [of c] text_fragments_other [of c]
    by (simp add: adash_table_effect)
next
  case (AddText heading textlines ordered_list unordered_list pos)
  then show ?thesis
    using chart_fragments_other [of c] table_fragments_other [of c]
    by (simp add: adash_text_effect text_fragments_def)
next
  case (AddChart ids fig plot_type ttl pos)
  then show ?thesis
    using table_fragments_other [of c] text_fragments_other [of c]
    by (simp add: adash_plot_effect)
qed

lemma run_calls_effect:
  "run_calls L cs s =
     s\<lparr>plots_html := plots_html s @
         concat (map (chart_fragments L (data s) (layout_config s)) cs),
       tables_html := tables_html s @ concat (map (table_fragments L (data s)) cs),
       texts_html := texts_html s @ concat (map text_fragments cs)\<rparr>"
proof (induction cs arbitrary: s)
  case Nil
  then show ?case by simp
next
  case (Cons c cs)
  show ?case
    by (simp add: Cons.IH [of "snd (do_call L c s)"]) (simp add: do_call_effect)
qed

lemma concat_filter_tables:
  "concat (map (table_fragments L dat) (filter is_table cs)) =
     concat (map (table_fragments L dat) cs)"
  by (induction cs) (simp_all add: table_fragments_other)

lemma concat_filter_texts:
  "concat (map text_fragments (filter is_text cs)) = concat (map text_fragments cs)"
  by (induction cs) (simp_all add: text_fragments_other)

lemma concat_filter_charts:
  "concat (map (chart_fragments L dat lay) (filter is_chart cs)) =
     concat (map (chart_fragments L dat lay) cs)"
  by (induction cs) (simp_all add: chart_fragments_other)

text \<open>
  Claim C4: after any sequence of \<open>adash_table\<close>, \<open>adash_text\<close> and \<open>adash_plot\<close> calls,
  on an object in any state, the rendered page is the template with, as its content,
  first the markup of every table, joined by newlines, then the markup of every text,
  joined by newlines, then for every plot its title heading and its markup, each
  followed by a newline. In each category the fragments are those the object held
  before, followed by those of the calls of that category in the order of these calls,
  however the calls of the three categories were interleaved.
\<close>

theorem render_dashboard_category_order:
  "fst (render_dashboard ttl (run_calls L cs s)) =
     Inr (template_before_title @ ttl @ template_before_heading @ ttl
       @ template_before_content
       @ joined ''\<newline>''
           (tables_html s @ concat (map (table_fragments L (data s)) (filter is_table cs)))
       @ joined ''\<newline>''
           (texts_html s @ concat (map text_fragments (filter is_text cs)))
       @ concat (map (\<lambda>p. title_html p @ ''\<newline>'' @ html p @ ''\<newline>'')
           (plots_html s @
            concat (map (chart_fragments L (data s) (layout_config s)) (filter is_chart cs))))
       @ template_after_content)"
  unfolding render_dashboard_def render_template_def content_html_def fst_conv
    join_joined plots_content_concat concat_filter_tables concat_filter_texts
    concat_filter_charts
  by (simp add: run_calls_effect)

text \<open>
  An example: a plot, a text, a table, a second text and a second table, added in this
  order, are rendered as the two tables, the two texts and the plot.
\<close>

lemma content_html_interleaved:
  "content_html (run_calls stub_libs
      [AddChart example_ids (Some ''fig'') ''line'' (Some ''Sales'') ''right'',
       AddText (Some ''Summary'') None None None ''left'',
       AddTable None,
       AddText None (Some [''one'']) None None ''end'',
       AddTable (Some (DataFrame [''A'']))] loaded) =
     ''<table>DateValue</table>\<newline><table>A</table>'' @
     ''<h2 class='text-2xl font-bold text-left'>Summary</h2>\<newline><p class='mt-2 text-end'>one</p>'' @
     ''<h3 class='text-xl font-semibold text-right'>Sales</h3>\<newline><div id=u>fig</div>\<newline>''"
  by (simp add: content_html_def loaded_def input_file_def init_def adash_plot_def
      adash_text_def adash_table_def append_table_def build_text_def add_heading_def
      add_textlines_def add_list_def heading_html_def paragraph_html_def
      get_text_position_class_def get_title_position_class_def plots_content_def
      title_html_def stub_libs_def example_ids_def)

end
